theory Spec2Isabelle
  imports Complex_Main "HOL-Library.Multiset"
begin

section \<open>The data model of models.py\<close>

text \<open>
  Python's \<open>int\<close> is unbounded and is the HOL type \<open>int\<close>. A Python \<open>float\<close> is a
  finite number, an infinity or NaN; the code only carries it from the request to the
  table, so the finite numbers are not restricted to the doubles. A Python \<open>str\<close> that
  comes from a request is a list of code points, among which there may be surrogates
  (\<open>U+D800\<close> to \<open>U+DFFF\<close>, which the JSON escape \<^verbatim>\<open>\ud800\<close> produces).
\<close>

datatype pyfloat = Finite real | PosInf | NegInf | NaN

type_synonym pystr = "nat list"

definition pystr_of :: "string \<Rightarrow> pystr" where
  "pystr_of s = map of_char s"

text \<open>
  The two pydantic models. The field \<open>id\<close> of \<open>Movie\<close> is written \<open>id'\<close>, since \<open>id\<close> is
  the identity function of HOL. The title and the genre of a movie are read from TEXT
  columns of the store and are \<open>string\<close>s.
\<close>

record Movie =
  id' :: int
  title :: string
  genre :: string

record Review =
  movie_id :: int
  rating :: pyfloat
  comment :: pystr

section \<open>The store: the file test.db behind the sqlite3 driver\<close>

text \<open>
  A row of table \<open>movies\<close> is \<open>(id, title, genre)\<close>; a row of table \<open>reviews\<close> is
  \<open>(id, movie_id, rating, comment)\<close>, where \<open>id\<close> is the rowid that the store assigns
  and a rating of \<open>None\<close> is NULL. A table is the list of its rows in the order in
  which a full scan yields them, which is the order of the rowids, and \<open>None\<close> while
  the table has not been created.
\<close>

type_synonym movie_row = "int \<times> string \<times> string"
type_synonym review_row = "int \<times> int \<times> pyfloat option \<times> pystr"

record database =
  movies :: "movie_row list option"
  reviews :: "review_row list option"

text \<open>
  The exceptions that the code and its libraries raise: \<open>OverflowError\<close> when the driver
  binds a Python int outside the signed 64-bit range of an SQLite INTEGER,
  \<open>UnicodeEncodeError\<close> when it binds a \<open>str\<close> that has no UTF-8 encoding,
  \<open>DataError\<close> when a string or a row is longer than the store allows,
  \<open>OperationalError\<close> when a statement names a table that does not exist or the
  store finds no rowid for a new row, \<open>HTTPException\<close> raised by the handler of
  app.py, and the framework's \<open>RequestValidationError\<close> for a request that does not
  match the declared schema.
\<close>

datatype exn =
    OverflowError
  | UnicodeEncodeError
  | DataError
  | OperationalError
  | HTTPException nat string
  | RequestValidationError

text \<open>The status code with which the framework answers when a handler raises.\<close>

fun status_code :: "exn \<Rightarrow> nat" where
  "status_code (HTTPException code detail) = code"
| "status_code RequestValidationError = 422"
| "status_code OverflowError = 500"
| "status_code UnicodeEncodeError = 500"
| "status_code DataError = 500"
| "status_code OperationalError = 500"

definition sqlite_int :: "int \<Rightarrow> bool" where
  "sqlite_int n \<longleftrightarrow> - 9223372036854775808 \<le> n \<and> n \<le> 9223372036854775807"

text \<open>
  A connection sees the committed content of the file and, once it has written, its own
  open transaction. \<open>commit\<close> makes the transaction the content of the file,
  \<open>rollback\<close> drops it.
\<close>

record connection =
  disk :: database
  txn :: "database option"

definition view :: "connection \<Rightarrow> database" where
  "view conn = (case txn conn of None \<Rightarrow> disk conn | Some d \<Rightarrow> d)"

definition commit :: "connection \<Rightarrow> connection" where
  "commit conn = conn\<lparr>disk := view conn, txn := None\<rparr>"

definition rollback :: "connection \<Rightarrow> connection" where
  "rollback conn = conn\<lparr>txn := None\<rparr>"

text \<open>
  The state that the operations act on: the content of test.db, and the number of
  connections that were opened and have not been closed.
\<close>

record state =
  db :: database
  open_conns :: nat

definition get_db_connection :: "state \<Rightarrow> connection \<times> state" where
  "get_db_connection s =
     (\<lparr>disk = db s, txn = None\<rparr>, s\<lparr>open_conns := open_conns s + 1\<rparr>)"

text \<open>
  \<^verbatim>\<open>with get_db_connection() as conn: body\<close>. The context manager of an sqlite3
  connection commits when the body ends normally (also by \<open>return\<close>) and rolls back
  when it raises; the exception then propagates. It does not close the connection, and
  the code has no call of \<open>close\<close>.
\<close>

definition with_conn ::
  "(connection \<Rightarrow> (exn + 'a) \<times> connection) \<Rightarrow> state \<Rightarrow> (exn + 'a) \<times> state" where
  "with_conn body s =
     (case get_db_connection s of
        (conn, s1) \<Rightarrow>
          (case body conn of
             (Inl e, conn1) \<Rightarrow> (Inl e, s1\<lparr>db := disk (rollback conn1)\<rparr>)
           | (Inr v, conn1) \<Rightarrow> (Inr v, s1\<lparr>db := disk (commit conn1)\<rparr>)))"

subsection \<open>The statements\<close>

text \<open>
  \<^verbatim>\<open>SELECT * FROM t LIMIT ? OFFSET ?\<close>: SQLite reads a negative OFFSET as 0 and a
  negative LIMIT as no limit.
\<close>

definition limit_offset :: "int \<Rightarrow> int \<Rightarrow> 'a list \<Rightarrow> 'a list" where
  "limit_offset limit offset rows =
     (let rest = (if offset < 0 then rows else drop (nat offset) rows)
      in if limit < 0 then rest else take (nat limit) rest)"

text \<open>\<^verbatim>\<open>Movie(**row)\<close>: the columns of the row by name.\<close>

fun Movie_of_row :: "movie_row \<Rightarrow> Movie" where
  "Movie_of_row (i, t, g) = \<lparr>id' = i, title = t, genre = g\<rparr>"

text \<open>
  \<^verbatim>\<open>
  def get_movies(page: int = 1, limit: int = 10) -> List[Movie]:
      offset = (page - 1) * limit
      with get_db_connection() as conn:
          cursor = conn.execute('SELECT * FROM movies LIMIT ? OFFSET ?', (limit, offset))
          return [Movie(**row) for row in cursor.fetchall()]
  \<close>
  \<open>execute\<close> compiles the statement, which fails on a missing table, and then binds
  the two parameters, which fails on an int outside the 64-bit range.
\<close>

definition get_movies :: "int \<Rightarrow> int \<Rightarrow> state \<Rightarrow> (exn + Movie list) \<times> state" where
  "get_movies page limit =
     (let offset = (page - 1) * limit in
      with_conn (\<lambda>conn.
        case movies (view conn) of
          None \<Rightarrow> (Inl OperationalError, conn)
        | Some rows \<Rightarrow>
            if \<not> (sqlite_int limit \<and> sqlite_int offset) then (Inl OverflowError, conn)
            else (Inr (map Movie_of_row (limit_offset limit offset rows)), conn)))"

text \<open>
  \<^verbatim>\<open>
  def get_movie(id: int) -> Optional[Movie]:
      with get_db_connection() as conn:
          cursor = conn.execute('SELECT * FROM movies WHERE id = ?', (id,))
          row = cursor.fetchone()
          return Movie(**row) if row else None
  \<close>
  \<open>fetchone\<close> is the first row of the result, or \<open>None\<close>.
\<close>

definition get_movie :: "int \<Rightarrow> state \<Rightarrow> (exn + Movie option) \<times> state" where
  "get_movie i =
     with_conn (\<lambda>conn.
       case movies (view conn) of
         None \<Rightarrow> (Inl OperationalError, conn)
       | Some rows \<Rightarrow>
           if \<not> sqlite_int i then (Inl OverflowError, conn)
           else (Inr (map_option Movie_of_row (find (\<lambda>row. fst row = i) rows)), conn))"

subsection \<open>Writing a review\<close>

text \<open>
  Binding a \<open>str\<close> encodes it in UTF-8, which no surrogate code point has. A code
  point takes one to four bytes.
\<close>

definition utf8_encodable :: "pystr \<Rightarrow> bool" where
  "utf8_encodable t = list_all (\<lambda>p. p < 55296 \<or> 57343 < p) t"

definition utf8_size :: "pystr \<Rightarrow> nat" where
  "utf8_size t =
     sum_list (map (\<lambda>p. if p < 128 then 1 else if p < 2048 then 2
                          else if p < 65536 then 3 else 4) t)"

text \<open>
  Binding a \<open>float\<close>: SQLite has no NaN and stores NULL for it.
\<close>

definition sql_real :: "pyfloat \<Rightarrow> pyfloat option" where
  "sql_real r = (if r = NaN then None else Some r)"

text \<open>
  The store refuses a string, and a row, of more than \<open>SQLITE_MAX_LENGTH\<close> bytes
  (the default of SQLite). The record of a row of \<open>reviews\<close> is a header (its own
  length, one byte for each of \<open>id\<close>, \<open>movie_id\<close> and \<open>rating\<close>, and the length of the
  comment as a variable-length integer) followed by the values: an integer in 0, 1, 2,
  3, 4, 6 or 8 bytes by its magnitude, a float in 8 bytes, or as an integer when it is
  one, NULL in none, and the bytes of the comment. The rowid is not part of the record.
\<close>

definition SQLITE_MAX_LENGTH :: nat where
  "SQLITE_MAX_LENGTH = 1000000000"

definition varint_len :: "nat \<Rightarrow> nat" where
  "varint_len v =
     (if v < 128 then 1 else if v < 16384 then 2 else if v < 2097152 then 3
      else if v < 268435456 then 4 else if v < 34359738368 then 5
      else if v < 4398046511104 then 6 else if v < 562949953421312 then 7
      else if v < 72057594037927936 then 8 else 9)"

definition int_size :: "int \<Rightarrow> nat" where
  "int_size i =
     (let u = (if i < 0 then - i - 1 else i) in
      if u \<le> 127 then (if i = 0 \<or> i = 1 then 0 else 1)
      else if u \<le> 32767 then 2
      else if u \<le> 8388607 then 3
      else if u \<le> 2147483647 then 4
      else if u \<le> 140737488355327 then 6
      else 8)"

definition real_size :: "pyfloat \<Rightarrow> nat" where
  "real_size r =
     (case r of
        NaN \<Rightarrow> 0
      | PosInf \<Rightarrow> 8
      | NegInf \<Rightarrow> 8
      | Finite x \<Rightarrow>
          if x = of_int \<lfloor>x\<rfloor> \<and> - 9223372036854775808 < x \<and> x < 9223372036854775808
          then int_size \<lfloor>x\<rfloor> else 8)"

definition record_size :: "int \<Rightarrow> pyfloat \<Rightarrow> pystr \<Rightarrow> nat" where
  "record_size m r t =
     4 + varint_len (2 * utf8_size t + 13) + int_size m + real_size r + utf8_size t"

text \<open>
  The rowid of a new row is 1 in an empty table and otherwise the largest rowid plus
  one. When the largest rowid is the largest 64-bit integer, the store draws random
  rowids (between 1 and \<open>2^62\<close>), at most 100, takes the first that no row has, and
  fails when there is none. The draws are an input of the model: \<open>draws k\<close> is the
  \<open>k\<close>-th of them.
\<close>

definition new_rowid :: "(nat \<Rightarrow> int) \<Rightarrow> int list \<Rightarrow> int option" where
  "new_rowid draws used =
     (if used = [] then Some 1
      else if Max (set used) < 9223372036854775807 then Some (Max (set used) + 1)
      else find (\<lambda>v. v \<notin> set used) (map draws [0..<100]))"

text \<open>
  \<^verbatim>\<open>INSERT INTO reviews (movie_id, rating, comment) VALUES (?, ?, ?)\<close>. \<open>execute\<close>
  compiles the statement, binds the three parameters in their order, and runs it: the
  store picks the rowid, builds the record and puts the row at the place of its rowid.
  It does not look at table \<open>movies\<close>: SQLite checks a FOREIGN KEY clause only on a
  connection that has switched the check on, which this code never does. The write
  opens the connection's transaction.
\<close>

definition insert_review ::
  "(nat \<Rightarrow> int) \<Rightarrow> int \<Rightarrow> pyfloat \<Rightarrow> pystr \<Rightarrow> connection \<Rightarrow> exn + connection" where
  "insert_review draws m r t conn =
     (case reviews (view conn) of
        None \<Rightarrow> Inl OperationalError
      | Some rows \<Rightarrow>
          if \<not> sqlite_int m then Inl OverflowError
          else if \<not> utf8_encodable t then Inl UnicodeEncodeError
          else if SQLITE_MAX_LENGTH < utf8_size t then Inl DataError
          else (case new_rowid draws (map fst rows) of
                  None \<Rightarrow> Inl OperationalError
                | Some rid \<Rightarrow>
                    if SQLITE_MAX_LENGTH < record_size m r t then Inl DataError
                    else Inr (conn\<lparr>txn := Some ((view conn)\<lparr>reviews :=
                           Some (insort_key fst (rid, m, sql_real r, t) rows)\<rparr>)\<rparr>)))"

text \<open>
  \<^verbatim>\<open>
  def create_review(review: Review) -> Review:
      with get_db_connection() as conn:
          conn.execute('INSERT INTO reviews (movie_id, rating, comment) VALUES (?, ?, ?)',
                       (review.movie_id, review.rating, review.comment))
          conn.commit()
          return review
  \<close>
\<close>

definition create_review ::
  "(nat \<Rightarrow> int) \<Rightarrow> Review \<Rightarrow> state \<Rightarrow> (exn + Review) \<times> state" where
  "create_review draws review =
     with_conn (\<lambda>conn.
       case insert_review draws (movie_id review) (rating review) (comment review) conn of
         Inl e \<Rightarrow> (Inl e, conn)
       | Inr conn1 \<Rightarrow> (Inr review, commit conn1))"

subsection \<open>Recommendations and the schema\<close>

text \<open>
  \<^verbatim>\<open>SELECT * FROM movies ORDER BY RANDOM() LIMIT 5\<close>. The store draws one random
  integer for each row and sorts the rows by it. The draws are an input of the model:
  \<open>rnd k\<close> is the integer drawn for the \<open>k\<close>-th row of the scan.
\<close>

definition order_by_random :: "(nat \<Rightarrow> int) \<Rightarrow> 'a list \<Rightarrow> 'a list" where
  "order_by_random rnd rows =
     map snd (sort_key fst (zip (map rnd [0..<length rows]) rows))"

text \<open>
  \<^verbatim>\<open>
  def get_recommendations() -> List[Movie]:
      with get_db_connection() as conn:
          cursor = conn.execute('SELECT * FROM movies ORDER BY RANDOM() LIMIT 5')
          return [Movie(**row) for row in cursor.fetchall()]
  \<close>
\<close>

definition get_recommendations :: "(nat \<Rightarrow> int) \<Rightarrow> state \<Rightarrow> (exn + Movie list) \<times> state" where
  "get_recommendations rnd =
     with_conn (\<lambda>conn.
       case movies (view conn) of
         None \<Rightarrow> (Inl OperationalError, conn)
       | Some rows \<Rightarrow>
           (Inr (map Movie_of_row (limit_offset 5 0 (order_by_random rnd rows))), conn))"

text \<open>
  \<^verbatim>\<open>CREATE TABLE IF NOT EXISTS\<close> creates an empty table where none of that name
  exists and does nothing otherwise. The driver runs a schema statement without
  opening a transaction: outside a transaction it changes the file at once.
\<close>

definition create_table_movies :: "database \<Rightarrow> database" where
  "create_table_movies d = (case movies d of None \<Rightarrow> d\<lparr>movies := Some []\<rparr> | Some rows \<Rightarrow> d)"

definition create_table_reviews :: "database \<Rightarrow> database" where
  "create_table_reviews d = (case reviews d of None \<Rightarrow> d\<lparr>reviews := Some []\<rparr> | Some rows \<Rightarrow> d)"

definition execute_schema :: "(database \<Rightarrow> database) \<Rightarrow> connection \<Rightarrow> connection" where
  "execute_schema stmt conn =
     (case txn conn of
        None \<Rightarrow> conn\<lparr>disk := stmt (disk conn)\<rparr>
      | Some d \<Rightarrow> conn\<lparr>txn := Some (stmt d)\<rparr>)"

text \<open>
  \<^verbatim>\<open>
  def init_db():
      with get_db_connection() as conn:
          conn.execute('''CREATE TABLE IF NOT EXISTS movies (...)''')
          conn.execute('''CREATE TABLE IF NOT EXISTS reviews (...)''')

  init_db()
  \<close>
  The module calls \<open>init_db\<close> when it is imported, before any request is served.
\<close>

definition init_db :: "state \<Rightarrow> (exn + unit) \<times> state" where
  "init_db =
     with_conn (\<lambda>conn.
       (Inr (), execute_schema create_table_reviews (execute_schema create_table_movies conn)))"

section \<open>The handlers of app.py\<close>

text \<open>
  \<^verbatim>\<open>
  @app.get("/movies", response_model=List[Movie])
  def read_movies(page: int = 1, limit: int = 10):
      return get_movies(page, limit)
  \<close>
\<close>

definition read_movies :: "int \<Rightarrow> int \<Rightarrow> state \<Rightarrow> (exn + Movie list) \<times> state" where
  "read_movies page limit = get_movies page limit"

text \<open>
  \<^verbatim>\<open>
  @app.get("/movies/{id}", response_model=Movie)
  def read_movie(id: int):
      movie = get_movie(id)
      if movie is None:
          raise HTTPException(status_code=404, detail="Movie not found")
      return movie
  \<close>
\<close>

definition read_movie :: "int \<Rightarrow> state \<Rightarrow> (exn + Movie) \<times> state" where
  "read_movie i s =
     (case get_movie i s of
        (Inl e, s') \<Rightarrow> (Inl e, s')
      | (Inr None, s') \<Rightarrow> (Inl (HTTPException 404 ''Movie not found''), s')
      | (Inr (Some movie), s') \<Rightarrow> (Inr movie, s'))"

text \<open>
  \<^verbatim>\<open>
  @app.post("/reviews", response_model=Review)
  def add_review(review: Review):
      return create_review(review)

  @app.get("/recommendations", response_model=List[Movie])
  def recommendations():
      return get_recommendations()
  \<close>
\<close>

definition add_review :: "(nat \<Rightarrow> int) \<Rightarrow> Review \<Rightarrow> state \<Rightarrow> (exn + Review) \<times> state" where
  "add_review draws review = create_review draws review"

definition recommendations :: "(nat \<Rightarrow> int) \<Rightarrow> state \<Rightarrow> (exn + Movie list) \<times> state" where
  "recommendations rnd = get_recommendations rnd"

section \<open>Requests: what the framework does around the handlers\<close>

text \<open>
  The body of \<open>POST /reviews\<close> is parsed as JSON (for a repeated key the parser keeps
  the last member; it reads \<^verbatim>\<open>NaN\<close> and \<^verbatim>\<open>Infinity\<close> as floats). Before it calls
  \<open>add_review\<close>, the framework builds the \<open>Review\<close> argument from the body with
  pydantic: each of the three fields that class \<open>Review\<close> declares must be a member of
  the JSON object, and its value must convert to the declared type.
\<close>

datatype json =
    JNull
  | JBool bool
  | JInt int
  | JFloat pyfloat
  | JString pystr
  | JArray "json list"
  | JObject "(pystr \<times> json) list"

text \<open>
  pydantic takes a value of the declared type as it is and a boolean as the int 0 or 1,
  and refuses null, an array and an object for an \<open>int\<close>, a \<open>float\<close> and a \<open>str\<close>. What
  it does with the other scalars (a string or a float for an \<open>int\<close>; a string, an int
  or a boolean for a \<open>float\<close>; a number or a boolean for a \<open>str\<close>) is string parsing
  and rounding that differ between its versions; these conversions are a parameter.
\<close>

record conversions =
  to_int :: "json \<Rightarrow> int option"
  to_float :: "json \<Rightarrow> pyfloat option"
  to_str :: "json \<Rightarrow> pystr option"

definition int_field :: "conversions \<Rightarrow> json \<Rightarrow> int option" where
  "int_field T j =
     (case j of
        JInt n \<Rightarrow> Some n
      | JBool b \<Rightarrow> Some (if b then 1 else 0)
      | JFloat x \<Rightarrow> to_int T j
      | JString t \<Rightarrow> to_int T j
      | JNull \<Rightarrow> None
      | JArray js \<Rightarrow> None
      | JObject kvs \<Rightarrow> None)"

definition float_field :: "conversions \<Rightarrow> json \<Rightarrow> pyfloat option" where
  "float_field T j =
     (case j of
        JFloat x \<Rightarrow> Some x
      | JInt n \<Rightarrow> to_float T j
      | JBool b \<Rightarrow> to_float T j
      | JString t \<Rightarrow> to_float T j
      | JNull \<Rightarrow> None
      | JArray js \<Rightarrow> None
      | JObject kvs \<Rightarrow> None)"

definition str_field :: "conversions \<Rightarrow> json \<Rightarrow> pystr option" where
  "str_field T j =
     (case j of
        JString t \<Rightarrow> Some t
      | JInt n \<Rightarrow> to_str T j
      | JFloat x \<Rightarrow> to_str T j
      | JBool b \<Rightarrow> to_str T j
      | JNull \<Rightarrow> None
      | JArray js \<Rightarrow> None
      | JObject kvs \<Rightarrow> None)"

definition json_member :: "json \<Rightarrow> pystr \<Rightarrow> json option" where
  "json_member body k = (case body of JObject kvs \<Rightarrow> map_of (rev kvs) k | _ \<Rightarrow> None)"

text \<open>
  \<^verbatim>\<open>
  class Review(BaseModel):
      movie_id: int
      rating: float
      comment: str
  \<close>
\<close>

definition validate_Review :: "conversions \<Rightarrow> json \<Rightarrow> Review option" where
  "validate_Review T body =
     (case (Option.bind (json_member body (pystr_of ''movie_id'')) (int_field T),
            Option.bind (json_member body (pystr_of ''rating'')) (float_field T),
            Option.bind (json_member body (pystr_of ''comment'')) (str_field T)) of
        (Some m, Some r, Some c) \<Rightarrow> Some \<lparr>movie_id = m, rating = r, comment = c\<rparr>
      | _ \<Rightarrow> None)"

text \<open>
  When the argument cannot be built, the framework answers with status 422 and the
  handler is not called.
\<close>

definition post_reviews ::
  "conversions \<Rightarrow> json \<Rightarrow> (nat \<Rightarrow> int) \<Rightarrow> state \<Rightarrow> (exn + Review) \<times> state" where
  "post_reviews T body draws s =
     (case validate_Review T body of
        None \<Rightarrow> (Inl RequestValidationError, s)
      | Some review \<Rightarrow> add_review draws review s)"




text \<open>
  The four endpoints. A query parameter that the request leaves out takes the default
  of the handler's signature. A request for recommendations, and a request that posts
  a review, carry the random draws that the store makes while they are served.
\<close>

datatype request =
    GET_movies "int option" "int option"
  | GET_movie int
  | POST_reviews json "nat \<Rightarrow> int"
  | GET_recommendations "nat \<Rightarrow> int"

datatype payload =
    Movies "Movie list"
  | One_movie Movie
  | One_review Review

definition or_default :: "'a \<Rightarrow> 'a option \<Rightarrow> 'a" where
  "or_default d v = (case v of None \<Rightarrow> d | Some x \<Rightarrow> x)"

definition respond :: "('a \<Rightarrow> payload) \<Rightarrow> (exn + 'a) \<times> state \<Rightarrow> (exn + payload) \<times> state" where
  "respond wrap r = (case r of (Inl e, s) \<Rightarrow> (Inl e, s) | (Inr v, s) \<Rightarrow> (Inr (wrap v), s))"

fun handle :: "conversions \<Rightarrow> request \<Rightarrow> state \<Rightarrow> (exn + payload) \<times> state" where
  "handle T (GET_movies page limit) s = respond Movies (read_movies (or_default 1 page) (or_default 10 limit) s)"
| "handle T (GET_movie i) s = respond One_movie (read_movie i s)"
| "handle T (POST_reviews body draws) s = respond One_review (post_reviews T body draws s)"
| "handle T (GET_recommendations rnd) s = respond Movies (recommendations rnd s)"

fun serve :: "conversions \<Rightarrow> request list \<Rightarrow> state \<Rightarrow> state" where
  "serve T [] s = s"
| "serve T (r # rs) s = serve T rs (snd (handle T r s))"

fun is_POST_reviews :: "request \<Rightarrow> bool" where
  "is_POST_reviews (POST_reviews body draws) = True"
| "is_POST_reviews r = False"

section \<open>Sample data\<close>

definition catalog7 :: state where
  "catalog7 = \<lparr>db = \<lparr>movies = Some [(1, ''Alien'', ''horror''), (2, ''Brazil'', ''satire''),
       (3, ''Casablanca'', ''drama''), (4, ''Dune'', ''scifi''), (5, ''Eraserhead'', ''horror''),
       (7, ''Gattaca'', ''scifi''), (9, ''Ikiru'', ''drama'')],
     reviews = Some []\<rparr>, open_conns = 0\<rparr>"

section \<open>What one operation does to the state\<close>

text \<open>
  An operation that only reads through its connection returns what it read from the
  committed content of the file, and leaves one more connection open.
\<close>

lemma with_conn_read:
  "with_conn (\<lambda>conn. (f (view conn), conn)) s =
     (f (db s), s\<lparr>open_conns := open_conns s + 1\<rparr>)"
  by (cases "f (db s)")
     (simp_all add: with_conn_def get_db_connection_def view_def commit_def rollback_def)

lemma with_conn_open_conns:
  "open_conns (snd (with_conn body s)) = open_conns s + 1"
  by (simp add: with_conn_def get_db_connection_def split: prod.splits sum.splits)

lemma get_movies_eval:
  "get_movies page limit s =
     ((case movies (db s) of
         None \<Rightarrow> Inl OperationalError
       | Some rows \<Rightarrow>
           if \<not> (sqlite_int limit \<and> sqlite_int ((page - 1) * limit)) then Inl OverflowError
           else Inr (map Movie_of_row (limit_offset limit ((page - 1) * limit) rows))),
      s\<lparr>open_conns := open_conns s + 1\<rparr>)"
proof -
  let ?f = "\<lambda>d. case movies d of
         None \<Rightarrow> Inl OperationalError
       | Some rows \<Rightarrow>
           if \<not> (sqlite_int limit \<and> sqlite_int ((page - 1) * limit)) then Inl OverflowError
           else Inr (map Movie_of_row (limit_offset limit ((page - 1) * limit) rows))"
  have "get_movies page limit s = with_conn (\<lambda>conn. (?f (view conn), conn)) s"
    unfolding get_movies_def Let_def
    by (rule arg_cong [where f = "\<lambda>b. with_conn b s"])
       (auto simp: fun_eq_iff split: option.splits)
  also have "\<dots> = (?f (db s), s\<lparr>open_conns := open_conns s + 1\<rparr>)"
    by (rule with_conn_read)
  finally show ?thesis .
qed

lemma get_movie_eval:
  "get_movie i s =
     ((case movies (db s) of
         None \<Rightarrow> Inl OperationalError
       | Some rows \<Rightarrow>
           if \<not> sqlite_int i then Inl OverflowError
           else Inr (map_option Movie_of_row (find (\<lambda>row. fst row = i) rows))),
      s\<lparr>open_conns := open_conns s + 1\<rparr>)"
proof -
  let ?f = "\<lambda>d. case movies d of
         None \<Rightarrow> Inl OperationalError
       | Some rows \<Rightarrow>
           if \<not> sqlite_int i then Inl OverflowError
           else Inr (map_option Movie_of_row (find (\<lambda>row. fst row = i) rows))"
  have "get_movie i s = with_conn (\<lambda>conn. (?f (view conn), conn)) s"
    unfolding get_movie_def
    by (rule arg_cong [where f = "\<lambda>b. with_conn b s"])
       (auto simp: fun_eq_iff split: option.splits)
  also have "\<dots> = (?f (db s), s\<lparr>open_conns := open_conns s + 1\<rparr>)"
    by (rule with_conn_read)
  finally show ?thesis .
qed

lemma get_recommendations_eval:
  "get_recommendations rnd s =
     ((case movies (db s) of
         None \<Rightarrow> Inl OperationalError
       | Some rows \<Rightarrow> Inr (map Movie_of_row (limit_offset 5 0 (order_by_random rnd rows)))),
      s\<lparr>open_conns := open_conns s + 1\<rparr>)"
proof -
  let ?f = "\<lambda>d. case movies d of
         None \<Rightarrow> Inl OperationalError
       | Some rows \<Rightarrow> Inr (map Movie_of_row (limit_offset 5 0 (order_by_random rnd rows)))"
  have "get_recommendations rnd s = with_conn (\<lambda>conn. (?f (view conn), conn)) s"
    unfolding get_recommendations_def
    by (rule arg_cong [where f = "\<lambda>b. with_conn b s"])
       (auto simp: fun_eq_iff split: option.splits)
  also have "\<dots> = (?f (db s), s\<lparr>open_conns := open_conns s + 1\<rparr>)"
    by (rule with_conn_read)
  finally show ?thesis .
qed

lemma create_review_eval:
  "create_review draws review s =
     (case reviews (db s) of
        None \<Rightarrow> (Inl OperationalError, s\<lparr>open_conns := open_conns s + 1\<rparr>)
      | Some rows \<Rightarrow>
          if \<not> sqlite_int (movie_id review)
          then (Inl OverflowError, s\<lparr>open_conns := open_conns s + 1\<rparr>)
          else if \<not> utf8_encodable (comment review)
          then (Inl UnicodeEncodeError, s\<lparr>open_conns := open_conns s + 1\<rparr>)
          else if SQLITE_MAX_LENGTH < utf8_size (comment review)
          then (Inl DataError, s\<lparr>open_conns := open_conns s + 1\<rparr>)
          else (case new_rowid draws (map fst rows) of
                  None \<Rightarrow> (Inl OperationalError, s\<lparr>open_conns := open_conns s + 1\<rparr>)
                | Some rid \<Rightarrow>
                    if SQLITE_MAX_LENGTH
                         < record_size (movie_id review) (rating review) (comment review)
                    then (Inl DataError, s\<lparr>open_conns := open_conns s + 1\<rparr>)
                    else (Inr review,
                          s\<lparr>db := (db s)\<lparr>reviews := Some (insort_key fst
                                 (rid, movie_id review, sql_real (rating review), comment review)
                                 rows)\<rparr>,
                            open_conns := open_conns s + 1\<rparr>)))"
  by (simp add: create_review_def with_conn_def get_db_connection_def insert_review_def
      view_def commit_def rollback_def split: option.splits)

lemma init_db_eval:
  "init_db s =
     (Inr (), s\<lparr>db := create_table_reviews (create_table_movies (db s)),
               open_conns := open_conns s + 1\<rparr>)"
  by (simp add: init_db_def with_conn_def get_db_connection_def execute_schema_def
      view_def commit_def)

lemma init_db_creates_tables:
  "movies (db (snd (init_db s))) \<noteq> None \<and> reviews (db (snd (init_db s))) \<noteq> None"
  by (simp add: init_db_eval create_table_movies_def create_table_reviews_def
      split: option.splits)

lemma catalog7_movies:
  "movies (db catalog7) = Some [(1, ''Alien'', ''horror''), (2, ''Brazil'', ''satire''),
       (3, ''Casablanca'', ''drama''), (4, ''Dune'', ''scifi''), (5, ''Eraserhead'', ''horror''),
       (7, ''Gattaca'', ''scifi''), (9, ''Ikiru'', ''drama'')]"
  by (simp add: catalog7_def)

lemma catalog7_reviews: "reviews (db catalog7) = Some []"
  by (simp add: catalog7_def)

section \<open>Pagination\<close>

text \<open>
  C1, as amended. For a page from 1 on and a limit from 0 on such that both values
  that the statement binds, the limit and the offset \<open>(page - 1) * limit\<close>, are in the
  range of an SQLite INTEGER, on every store that has its \<open>movies\<close> table,
  \<open>GET /movies\<close> returns at most \<open>limit\<close> movies, and they are the movies of the rows
  of the table, in the order of the table, from offset \<open>(page - 1) * limit\<close> on.
\<close>

theorem read_movies_page_slice:
  assumes "movies (db s) = Some rows"
    and "1 \<le> page" and "0 \<le> limit"
    and "sqlite_int limit" and "sqlite_int ((page - 1) * limit)"
  shows "\<exists>ms. fst (read_movies page limit s) = Inr ms
           \<and> int (length ms) \<le> limit
           \<and> ms = take (nat limit) (drop (nat ((page - 1) * limit)) (map Movie_of_row rows))"
proof -
  have off: "0 \<le> (page - 1) * limit"
    using assms(2,3) by simp
  have "fst (read_movies page limit s) =
          Inr (map Movie_of_row (limit_offset limit ((page - 1) * limit) rows))"
    using assms(1,4,5) by (simp add: read_movies_def get_movies_eval)
  moreover have "map Movie_of_row (limit_offset limit ((page - 1) * limit) rows) =
          take (nat limit) (drop (nat ((page - 1) * limit)) (map Movie_of_row rows))"
    using off assms(3) by (simp add: limit_offset_def take_map drop_map)
  moreover have "int (length (take (nat limit) (drop (nat ((page - 1) * limit))
          (map Movie_of_row rows)))) \<le> limit"
    using assms(3) by simp
  ultimately show ?thesis by simp
qed

theorem read_movies_page_slice_witness:
  "fst (read_movies 2 3 catalog7) =
     Inr [\<lparr>id' = 4, title = ''Dune'', genre = ''scifi''\<rparr>,
          \<lparr>id' = 5, title = ''Eraserhead'', genre = ''horror''\<rparr>,
          \<lparr>id' = 7, title = ''Gattaca'', genre = ''scifi''\<rparr>]"
proof -
  from read_movies_page_slice [OF catalog7_movies, of 2 3]
  show ?thesis by (simp add: sqlite_int_def)
qed

text \<open>
  C1 as stated, for all valid page and limit values, fails: page 3 and limit
  \<open>2^63 - 1\<close> are positive and each is an SQLite INTEGER, but the offset
  \<open>2 * (2^63 - 1)\<close> is not; the driver cannot bind it and \<open>get_movies\<close> raises
  \<open>OverflowError\<close>, where the claim has the empty slice past the end of the catalog.
\<close>

theorem read_movies_valid_page_counterexample:
  "(1::int) \<le> 3 \<and> (0::int) \<le> 9223372036854775807
   \<and> sqlite_int 3 \<and> sqlite_int 9223372036854775807
   \<and> movies (db catalog7) \<noteq> None
   \<and> fst (read_movies 3 9223372036854775807 catalog7) = Inl OverflowError
   \<and> status_code OverflowError = 500"
  by (simp add: read_movies_def get_movies_eval catalog7_movies sqlite_int_def)

text \<open>
  C10, as amended. For a page of 0 or less and a limit of 1 or more whose offset
  \<open>(page - 1) * limit\<close> is still an SQLite INTEGER, \<open>get_movies page limit\<close> returns what
  \<open>get_movies 1 limit\<close> returns: SQLite reads the negative offset as 0. With limit 0
  the result is the empty list, for every page, on a store that has its \<open>movies\<close>
  table.
\<close>

theorem get_movies_low_page_aliases_first:
  "(page \<le> 0 \<and> 1 \<le> limit \<and> sqlite_int ((page - 1) * limit) \<longrightarrow>
      fst (get_movies page limit s) = fst (get_movies 1 limit s))
   \<and> (movies (db s) \<noteq> None \<longrightarrow> fst (get_movies page 0 s) = Inr [])"
proof (intro conjI impI)
  assume a: "page \<le> 0 \<and> 1 \<le> limit \<and> sqlite_int ((page - 1) * limit)"
  then have "(page - 1) * limit < 0"
    by (simp add: mult_neg_pos)
  with a show "fst (get_movies page limit s) = fst (get_movies 1 limit s)"
    by (simp add: get_movies_eval limit_offset_def sqlite_int_def split: option.splits)
next
  assume "movies (db s) \<noteq> None"
  then show "fst (get_movies page 0 s) = Inr []"
    by (auto simp: get_movies_eval limit_offset_def sqlite_int_def)
qed

theorem get_movies_low_page_aliases_first_witness:
  "fst (get_movies (- 3) 2 catalog7) =
     Inr [\<lparr>id' = 1, title = ''Alien'', genre = ''horror''\<rparr>,
          \<lparr>id' = 2, title = ''Brazil'', genre = ''satire''\<rparr>]
   \<and> fst (get_movies 5 0 catalog7) = Inr []"
proof -
  have "fst (get_movies 1 2 catalog7) =
     Inr [\<lparr>id' = 1, title = ''Alien'', genre = ''horror''\<rparr>,
          \<lparr>id' = 2, title = ''Brazil'', genre = ''satire''\<rparr>]"
    by (simp add: get_movies_eval catalog7_movies limit_offset_def sqlite_int_def)
  then show ?thesis
    using get_movies_low_page_aliases_first [of "- 3" 2 catalog7]
      get_movies_low_page_aliases_first [of 5 2 catalog7]
    by (simp add: sqlite_int_def catalog7_movies)
qed

text \<open>
  C10 as stated, for every page of 0 or less, fails: for page \<open>- 2^62\<close> and limit 4
  the offset is \<open>- 2^64 - 4\<close>, which the driver cannot bind, and \<open>get_movies\<close> raises
  \<open>OverflowError\<close>, while \<open>get_movies 1 4\<close> returns the first four movies.
\<close>

theorem get_movies_low_page_counterexample:
  "fst (get_movies (- 4611686018427387904) 4 catalog7) = Inl OverflowError
   \<and> fst (get_movies 1 4 catalog7) =
       Inr [\<lparr>id' = 1, title = ''Alien'', genre = ''horror''\<rparr>,
            \<lparr>id' = 2, title = ''Brazil'', genre = ''satire''\<rparr>,
            \<lparr>id' = 3, title = ''Casablanca'', genre = ''drama''\<rparr>,
            \<lparr>id' = 4, title = ''Dune'', genre = ''scifi''\<rparr>]"
  by (simp add: get_movies_eval catalog7_movies limit_offset_def sqlite_int_def)

section \<open>One movie\<close>

lemma find_unique_key:
  "distinct (map fst rows) \<Longrightarrow> row \<in> set rows \<Longrightarrow> find (\<lambda>r. fst r = fst row) rows = Some row"
proof (induction rows)
  case Nil
  then show ?case by simp
next
  case (Cons r rows)
  show ?case
  proof (cases "r = row")
    case True
    then show ?thesis by simp
  next
    case False
    with Cons.prems have mem: "row \<in> set rows" by simp
    then have in_keys: "fst row \<in> fst ` set rows" by (rule imageI)
    from Cons.prems(1) have fresh: "fst r \<notin> fst ` set rows" by simp
    have "fst r \<noteq> fst row"
    proof
      assume "fst r = fst row"
      with in_keys fresh show False by simp
    qed
    with Cons.IH Cons.prems(1) mem show ?thesis by simp
  qed
qed

lemma find_absent_key:
  "i \<notin> fst ` set rows \<Longrightarrow> find (\<lambda>r. fst r = i) rows = None"
proof -
  assume absent: "i \<notin> fst ` set rows"
  have "\<not> (\<exists>r. r \<in> set rows \<and> fst r = i)"
  proof
    assume "\<exists>r. r \<in> set rows \<and> fst r = i"
    then obtain r where "r \<in> set rows" and "fst r = i" by blast
    then have "i \<in> fst ` set rows" by (metis imageI)
    with absent show False by simp
  qed
  then show ?thesis by (simp add: find_None_iff)
qed

text \<open>
  C2, as amended. On a store that has its \<open>movies\<close> table, where \<open>id\<close> is the primary key
  (no two rows share an id), and for every id in the range of an SQLite INTEGER:
  \<open>GET /movies/{id}\<close> returns the movie of the row with that id when the table has
  one, and fails with \<open>HTTPException\<close> of status 404 when it has none.
\<close>

theorem read_movie_found_or_404:
  assumes "movies (db s) = Some rows" and "distinct (map fst rows)" and "sqlite_int i"
  shows "(\<forall>row \<in> set rows. fst row = i \<longrightarrow> fst (read_movie i s) = Inr (Movie_of_row row))
       \<and> (i \<notin> fst ` set rows \<longrightarrow>
            fst (read_movie i s) = Inl (HTTPException 404 ''Movie not found'')
            \<and> status_code (HTTPException 404 ''Movie not found'') = 404)"
proof (intro conjI ballI impI)
  fix row
  assume "row \<in> set rows" and "fst row = i"
  with assms(2) have "find (\<lambda>r. fst r = i) rows = Some row"
    using find_unique_key [of rows row] by simp
  with assms(1,3) show "fst (read_movie i s) = Inr (Movie_of_row row)"
    by (simp add: read_movie_def get_movie_eval)
next
  assume "i \<notin> fst ` set rows"
  then have "find (\<lambda>r. fst r = i) rows = None" by (rule find_absent_key)
  with assms(1,3) show "fst (read_movie i s) = Inl (HTTPException 404 ''Movie not found'')"
    by (simp add: read_movie_def get_movie_eval)
next
  show "status_code (HTTPException 404 ''Movie not found'') = 404" by simp
qed

theorem read_movie_found_or_404_witness:
  "fst (read_movie 4 catalog7) = Inr \<lparr>id' = 4, title = ''Dune'', genre = ''scifi''\<rparr>
   \<and> fst (read_movie 6 catalog7) = Inl (HTTPException 404 ''Movie not found'')"
  using read_movie_found_or_404 [OF catalog7_movies, of 4]
    read_movie_found_or_404 [OF catalog7_movies, of 6]
  by (simp add: sqlite_int_def)

text \<open>
  C2 as stated, for every integer id, fails: for the id \<open>2^63\<close> no row exists, and the
  request does not fail with 404: the driver raises \<open>OverflowError\<close> when it binds the
  id, which the handler does not catch, and the answer has status 500.
\<close>

theorem read_movie_every_id_counterexample:
  "movies (db catalog7) \<noteq> None
   \<and> 9223372036854775808 \<notin> fst ` set (the (movies (db catalog7)))
   \<and> fst (read_movie 9223372036854775808 catalog7) = Inl OverflowError
   \<and> status_code OverflowError = 500"
  by (simp add: read_movie_def get_movie_eval catalog7_movies sqlite_int_def)

section \<open>Reviews\<close>

lemma utf8_size_le_record_size: "utf8_size t \<le> record_size m r t"
  by (simp add: record_size_def)

lemma new_rowid_free:
  "used = [] \<or> Max (set used) < 9223372036854775807 \<Longrightarrow> new_rowid draws used \<noteq> None"
  by (auto simp: new_rowid_def)

lemma utf8_encodable_pystr_of: "utf8_encodable (pystr_of t)"
proof -
  have "of_char c < (55296::nat)" for c :: char
  proof -
    have "of_char c mod 256 < (256::nat)"
      by (rule mod_less_divisor) simp
    then have "of_char c < (256::nat)"
      by (simp only: of_char_mod_256)
    then show ?thesis by (rule less_trans) simp
  qed
  then show ?thesis
    by (simp add: utf8_encodable_def pystr_of_def list_all_iff)
qed

lemma create_review_ok:
  assumes "reviews (db s) = Some rows"
    and "sqlite_int (movie_id review)" and "utf8_encodable (comment review)"
    and "record_size (movie_id review) (rating review) (comment review) \<le> SQLITE_MAX_LENGTH"
    and "new_rowid draws (map fst rows) = Some rid"
  shows "create_review draws review s =
     (Inr review,
      s\<lparr>db := (db s)\<lparr>reviews := Some (insort_key fst
             (rid, movie_id review, sql_real (rating review), comment review) rows)\<rparr>,
        open_conns := open_conns s + 1\<rparr>)"
proof -
  have "utf8_size (comment review) \<le> SQLITE_MAX_LENGTH"
    using utf8_size_le_record_size [of "comment review" "movie_id review" "rating review"]
      assms(4) by simp
  with assms show ?thesis
    by (simp add: create_review_eval)
qed

text \<open>
  The branches of the insert at concrete inputs: a comment with a surrogate is refused
  before anything is written, a NaN rating is written as NULL, and in a table whose
  largest rowid is the largest 64-bit integer the new row takes the first free random
  rowid and its place in the order of the rowids.
\<close>

lemma create_review_surrogate:
  "create_review draws \<lparr>movie_id = 4, rating = Finite 1, comment = [104, 55296]\<rparr> catalog7 =
     (Inl UnicodeEncodeError, catalog7\<lparr>open_conns := 1\<rparr>)"
  by (simp add: create_review_eval catalog7_reviews sqlite_int_def utf8_encodable_def catalog7_def)

lemma create_review_NaN:
  "reviews (db (snd (create_review (\<lambda>k. 1)
       \<lparr>movie_id = 4, rating = NaN, comment = pystr_of ''ok''\<rparr> catalog7))) =
     Some [(1, 4, None, pystr_of ''ok'')]"
proof -
  have "record_size 4 NaN (pystr_of ''ok'') \<le> SQLITE_MAX_LENGTH"
    by (simp add: record_size_def utf8_size_def varint_len_def int_size_def real_size_def
        pystr_of_def SQLITE_MAX_LENGTH_def)
  moreover have "utf8_size (pystr_of ''ok'') \<le> SQLITE_MAX_LENGTH"
    by (simp add: utf8_size_def pystr_of_def SQLITE_MAX_LENGTH_def)
  ultimately show ?thesis
    by (simp add: create_review_eval catalog7_reviews sqlite_int_def utf8_encodable_pystr_of
        sql_real_def new_rowid_def)
qed

lemma create_review_random_rowid:
  "reviews (db (snd (create_review (\<lambda>k. int k + 5)
       \<lparr>movie_id = 4, rating = Finite 1, comment = pystr_of ''ok''\<rparr>
       \<lparr>db = \<lparr>movies = Some [], reviews = Some [(5, 1, Some (Finite 2), []),
                (9223372036854775807, 1, None, [])]\<rparr>, open_conns = 0\<rparr>))) =
     Some [(5, 1, Some (Finite 2), []), (6, 4, Some (Finite 1), pystr_of ''ok''),
           (9223372036854775807, 1, None, [])]"
proof -
  have "new_rowid (\<lambda>k. int k + 5) [5, 9223372036854775807] = Some 6"
    by (simp add: new_rowid_def upt_rec)
  moreover have "record_size 4 (Finite 1) (pystr_of ''ok'') \<le> SQLITE_MAX_LENGTH"
    by (simp add: record_size_def utf8_size_def varint_len_def int_size_def real_size_def
        pystr_of_def SQLITE_MAX_LENGTH_def)
  moreover have "utf8_size (pystr_of ''ok'') \<le> SQLITE_MAX_LENGTH"
    by (simp add: utf8_size_def pystr_of_def SQLITE_MAX_LENGTH_def)
  ultimately show ?thesis
    by (simp add: create_review_eval sqlite_int_def utf8_encodable_pystr_of sql_real_def)
qed


text \<open>
  C3, as amended. On a store that has its \<open>reviews\<close> table and a rowid for the new
  row, for every review that the store can take (a \<open>movie_id\<close> in the range of an SQLite
  INTEGER, a finite rating, a comment without surrogate code points, a row within the
  length limit of the store), the handler of \<open>POST /reviews\<close> returns the review that
  was submitted, with its three fields and nothing else, and afterwards table
  \<open>reviews\<close> holds its former rows and one more, with exactly that \<open>movie_id\<close>,
  \<open>rating\<close> and \<open>comment\<close>.
\<close>

theorem add_review_echo_persist:
  assumes "reviews (db s) = Some rows"
    and "sqlite_int (movie_id review)" and "utf8_encodable (comment review)"
    and "record_size (movie_id review) (rating review) (comment review) \<le> SQLITE_MAX_LENGTH"
    and "new_rowid draws (map fst rows) = Some rid"
    and "rating review = Finite x"
  shows "fst (add_review draws review s) = Inr review
       \<and> (\<exists>rows'. reviews (db (snd (add_review draws review s))) = Some rows'
             \<and> set rows' = insert (rid, movie_id review, Some (rating review), comment review)
                   (set rows)
             \<and> length rows' = length rows + 1)"
  using create_review_ok [OF assms(1-5)] assms(6)
  by (simp add: add_review_def set_insort_key sql_real_def)

theorem add_review_echo_persist_witness:
  "fst (add_review (\<lambda>k. 1) \<lparr>movie_id = 4, rating = Finite (9 / 2), comment = pystr_of ''sand''\<rparr>
        catalog7) =
     Inr \<lparr>movie_id = 4, rating = Finite (9 / 2), comment = pystr_of ''sand''\<rparr>
   \<and> reviews (db (snd (add_review (\<lambda>k. 1)
        \<lparr>movie_id = 4, rating = Finite (9 / 2), comment = pystr_of ''sand''\<rparr> catalog7))) =
     Some [(1, 4, Some (Finite (9 / 2)), pystr_of ''sand'')]"
proof -
  have size: "record_size 4 (Finite (9 / 2)) (pystr_of ''sand'') \<le> SQLITE_MAX_LENGTH"
    by (simp add: record_size_def utf8_size_def varint_len_def int_size_def real_size_def
        pystr_of_def SQLITE_MAX_LENGTH_def)
  have rid: "new_rowid (\<lambda>k. 1) (map fst ([] :: review_row list)) = Some 1"
    by (simp add: new_rowid_def)
  have "\<exists>rows'. reviews (db (snd (add_review (\<lambda>k. 1)
        \<lparr>movie_id = 4, rating = Finite (9 / 2), comment = pystr_of ''sand''\<rparr> catalog7))) = Some rows'
      \<and> set rows' = {(1, 4, Some (Finite (9 / 2)), pystr_of ''sand'')} \<and> length rows' = 1"
    and "fst (add_review (\<lambda>k. 1) \<lparr>movie_id = 4, rating = Finite (9 / 2), comment = pystr_of ''sand''\<rparr>
        catalog7) = Inr \<lparr>movie_id = 4, rating = Finite (9 / 2), comment = pystr_of ''sand''\<rparr>"
    using add_review_echo_persist [OF catalog7_reviews, of
        "\<lparr>movie_id = 4, rating = Finite (9 / 2), comment = pystr_of ''sand''\<rparr>" "\<lambda>k. 1" 1
        "9 / 2"]
      size rid
    by (simp_all add: sqlite_int_def utf8_encodable_pystr_of)
  then show ?thesis
    by (auto simp: length_Suc_conv)
qed

text \<open>
  C3 as stated, for every well-formed payload, fails: \<open>movie_id\<close> is a Python int, and
  for \<open>movie_id = 2^63\<close> the driver raises \<open>OverflowError\<close> when it binds the value:
  nothing is returned and no row is written.
\<close>

theorem add_review_every_payload_counterexample:
  "fst (add_review (\<lambda>k. 1)
        \<lparr>movie_id = 9223372036854775808, rating = Finite 5, comment = pystr_of ''fine''\<rparr> catalog7) =
     Inl OverflowError
   \<and> reviews (db (snd (add_review (\<lambda>k. 1)
        \<lparr>movie_id = 9223372036854775808, rating = Finite 5, comment = pystr_of ''fine''\<rparr>
        catalog7))) = Some []"
  by (simp add: add_review_def create_review_eval catalog7_reviews sqlite_int_def)









lemma post_reviews_valid_body:
  "validate_Review T body = Some review \<Longrightarrow>
     post_reviews T body draws s = add_review draws review s"
  by (simp add: post_reviews_def)




section \<open>Recommendations\<close>

lemma mset_order_by_random: "mset (order_by_random rnd rows) = mset rows"
proof -
  let ?zs = "zip (map rnd [0..<length rows]) rows"
  have unzip: "map snd ?zs = rows"
    by (simp add: map_snd_zip)
  have "mset (map snd (sort_key fst ?zs)) = image_mset snd (mset (sort_key fst ?zs))"
    by (simp only: mset_map)
  also have "\<dots> = image_mset snd (mset ?zs)"
    by (simp only: mset_sort)
  also have "\<dots> = mset (map snd ?zs)"
    by (simp only: mset_map)
  finally show ?thesis
    by (simp only: order_by_random_def unzip)
qed

lemma id'_Movie_of_row: "map id' (map Movie_of_row rows) = map fst rows"
  by (induction rows) auto

lemma limit_offset_first: "0 \<le> n \<Longrightarrow> limit_offset n 0 rows = take (nat n) rows"
  by (simp add: limit_offset_def)

text \<open>
  C5. On a store that has its \<open>movies\<close> table, where \<open>id\<close> is the primary key, and for
  all random draws of the store, \<open>GET /recommendations\<close> returns at most 5 movies (5, or
  all of them when the table has fewer), each the movie of a row of the table, and no
  movie twice: the ids of the movies returned are pairwise distinct.
\<close>

theorem recommendations_at_most_five:
  assumes "movies (db s) = Some rows" and "distinct (map fst rows)"
  shows "\<exists>ms. fst (recommendations rnd s) = Inr ms
           \<and> length ms \<le> 5 \<and> length ms = min 5 (length rows)
           \<and> set ms \<subseteq> Movie_of_row ` set rows
           \<and> distinct ms \<and> distinct (map id' ms)"
proof -
  let ?perm = "order_by_random rnd rows"
  let ?ms = "map Movie_of_row (take 5 ?perm)"
  have res: "fst (recommendations rnd s) = Inr ?ms"
    using assms(1)
    by (simp add: recommendations_def get_recommendations_eval limit_offset_first)
  have len: "length ?ms \<le> 5"
    by simp
  have "length ?perm = length rows"
    using mset_order_by_random [of rnd rows] by (rule mset_eq_length)
  then have len': "length ?ms = min 5 (length rows)"
    by simp
  have "set (take 5 ?perm) \<subseteq> set ?perm"
    by (rule set_take_subset)
  also have "set ?perm = set rows"
    using mset_order_by_random [of rnd rows] by (rule mset_eq_setD)
  finally have sub: "set ?ms \<subseteq> Movie_of_row ` set rows"
    by auto
  have "mset (map fst ?perm) = mset (map fst rows)"
    by (simp only: mset_map mset_order_by_random)
  then have "distinct (map fst ?perm) = distinct (map fst rows)"
    by (rule mset_eq_imp_distinct_iff)
  with assms(2) have "distinct (map fst ?perm)"
    by simp
  then have "distinct (take 5 (map fst ?perm))"
    by (rule distinct_take)
  then have ids: "distinct (map id' ?ms)"
    by (simp only: id'_Movie_of_row take_map)
  then have "distinct ?ms"
    using distinct_map [of id' ?ms] by blast
  with res len len' sub ids show ?thesis
    by blast
qed

theorem recommendations_at_most_five_witness:
  "fst (recommendations (\<lambda>k. int (k * 3 mod 7)) catalog7) =
     Inr [\<lparr>id' = 1, title = ''Alien'', genre = ''horror''\<rparr>,
          \<lparr>id' = 7, title = ''Gattaca'', genre = ''scifi''\<rparr>,
          \<lparr>id' = 4, title = ''Dune'', genre = ''scifi''\<rparr>,
          \<lparr>id' = 2, title = ''Brazil'', genre = ''satire''\<rparr>,
          \<lparr>id' = 9, title = ''Ikiru'', genre = ''drama''\<rparr>]
   \<and> (\<exists>ms. fst (recommendations (\<lambda>k. int (k * 3 mod 7)) catalog7) = Inr ms
           \<and> length ms \<le> 5 \<and> distinct (map id' ms))"
proof
  have "[0..<7] = [0, 1, 2, 3, 4, 5, 6::nat]"
    by (simp add: upt_rec)
  then show "fst (recommendations (\<lambda>k. int (k * 3 mod 7)) catalog7) =
     Inr [\<lparr>id' = 1, title = ''Alien'', genre = ''horror''\<rparr>,
          \<lparr>id' = 7, title = ''Gattaca'', genre = ''scifi''\<rparr>,
          \<lparr>id' = 4, title = ''Dune'', genre = ''scifi''\<rparr>,
          \<lparr>id' = 2, title = ''Brazil'', genre = ''satire''\<rparr>,
          \<lparr>id' = 9, title = ''Ikiru'', genre = ''drama''\<rparr>]"
    by (simp add: recommendations_def get_recommendations_eval catalog7_movies
        limit_offset_def order_by_random_def)
  show "\<exists>ms. fst (recommendations (\<lambda>k. int (k * 3 mod 7)) catalog7) = Inr ms
           \<and> length ms \<le> 5 \<and> distinct (map id' ms)"
    using recommendations_at_most_five [OF catalog7_movies, of "\<lambda>k. int (k * 3 mod 7)"]
    by auto
qed

section \<open>Connections\<close>

text \<open>
  C6 does not hold of the code. Each operation opens a connection of its own, and the
  \<^verbatim>\<open>with\<close> block ends its transaction on every outcome, but nothing closes the
  connection (lemma \<open>with_conn_open_conns\<close>, for every body and state): after each of
  the four operations one more connection is open than before, and after two
  operations two more.
\<close>

theorem operations_leave_connection_open:
  "open_conns catalog7 = 0
   \<and> open_conns (snd (get_movies 1 10 catalog7)) = 1
   \<and> open_conns (snd (get_movie 4 catalog7)) = 1
   \<and> open_conns (snd (create_review (\<lambda>k. 1)
          \<lparr>movie_id = 4, rating = Finite 3, comment = pystr_of ''ok''\<rparr> catalog7)) = 1
   \<and> open_conns (snd (get_recommendations (\<lambda>k. 0) catalog7)) = 1
   \<and> open_conns (snd (get_movie 4 (snd (get_movies 1 10 catalog7)))) = 2"
  by (simp add: get_movies_def get_movie_def create_review_def get_recommendations_def
      with_conn_open_conns catalog7_def)

section \<open>Schema creation\<close>

text \<open>
  C7. \<open>init_db\<close> never raises. On a store where both tables already exist it leaves
  the content of the file as it is, and a second run after a first leaves what the
  first run left.
\<close>

theorem init_db_idempotent:
  "fst (init_db s) = Inr ()
   \<and> (movies (db s) \<noteq> None \<and> reviews (db s) \<noteq> None \<longrightarrow> db (snd (init_db s)) = db s)
   \<and> fst (init_db (snd (init_db s))) = Inr ()
   \<and> db (snd (init_db (snd (init_db s)))) = db (snd (init_db s))"
  by (auto simp: init_db_eval create_table_movies_def create_table_reviews_def
      split: option.splits)

theorem init_db_idempotent_witness:
  "db (snd (init_db catalog7)) = db catalog7
   \<and> db (snd (init_db \<lparr>db = \<lparr>movies = None, reviews = None\<rparr>, open_conns = 0\<rparr>)) =
       \<lparr>movies = Some [], reviews = Some []\<rparr>"
  using init_db_idempotent [of catalog7]
  by (simp add: catalog7_movies catalog7_reviews init_db_eval
      create_table_movies_def create_table_reviews_def)

section \<open>Table movies is never written\<close>

lemma snd_respond: "snd (respond wrap r) = snd r"
  by (simp add: respond_def split: prod.splits sum.splits)

lemma snd_read_movie: "snd (read_movie i s) = snd (get_movie i s)"
  by (simp add: read_movie_def split: prod.splits sum.splits option.splits)

lemma db_get_movies: "db (snd (get_movies page limit s)) = db s"
  by (simp add: get_movies_eval)

lemma db_get_movie: "db (snd (get_movie i s)) = db s"
  by (simp add: get_movie_eval)

lemma db_get_recommendations: "db (snd (get_recommendations rnd s)) = db s"
  by (simp add: get_recommendations_eval)

lemma movies_create_review:
  "movies (db (snd (create_review draws review s))) = movies (db s)"
  by (simp add: create_review_eval split: option.splits)

lemma movies_post_reviews:
  "movies (db (snd (post_reviews T body draws s))) = movies (db s)"
  by (simp add: post_reviews_def add_review_def movies_create_review split: option.splits)

lemma handle_movies: "movies (db (snd (handle T r s))) = movies (db s)"
  by (cases r)
     (simp_all add: snd_respond snd_read_movie read_movies_def recommendations_def
       db_get_movies db_get_movie db_get_recommendations movies_post_reviews)

lemma handle_read_only: "\<not> is_POST_reviews r \<Longrightarrow> db (snd (handle T r s)) = db s"
  by (cases r)
     (simp_all add: snd_respond snd_read_movie read_movies_def recommendations_def
       db_get_movies db_get_movie db_get_recommendations)

lemma serve_movies: "movies (db (serve T rs s)) = movies (db s)"
  by (induction rs arbitrary: s) (simp_all add: handle_movies)

lemma serve_read_only: "\<forall>r \<in> set rs. \<not> is_POST_reviews r \<Longrightarrow> db (serve T rs s) = db s"
  by (induction rs arbitrary: s) (simp_all add: handle_read_only)

text \<open>
  C8. After every sequence of requests to the four endpoints, whatever their
  arguments and outcomes, table \<open>movies\<close> is what it was before; and when no request
  of the sequence is a \<open>POST /reviews\<close>, the whole content of the file, table
  \<open>reviews\<close> included, is what it was before.
\<close>

theorem serve_never_changes_movies:
  "movies (db (serve T rs s)) = movies (db s)
   \<and> ((\<forall>r \<in> set rs. \<not> is_POST_reviews r) \<longrightarrow> db (serve T rs s) = db s)"
  by (simp add: serve_movies serve_read_only)

theorem serve_never_changes_movies_witness:
  "\<forall>T. movies (db (serve T
            [GET_movies None (Some 3),
             POST_reviews (JObject [(pystr_of ''movie_id'', JInt 4),
                 (pystr_of ''rating'', JFloat (Finite 5)),
                 (pystr_of ''comment'', JString (pystr_of ''sand''))]) (\<lambda>k. 1),
             GET_movie 4, GET_recommendations (\<lambda>k. 0)] catalog7)) = movies (db catalog7)
      \<and> reviews (db (serve T
            [GET_movies None (Some 3),
             POST_reviews (JObject [(pystr_of ''movie_id'', JInt 4),
                 (pystr_of ''rating'', JFloat (Finite 5)),
                 (pystr_of ''comment'', JString (pystr_of ''sand''))]) (\<lambda>k. 1),
             GET_movie 4, GET_recommendations (\<lambda>k. 0)] catalog7)) =
          Some [(1, 4, Some (Finite 5), pystr_of ''sand'')]
      \<and> db (serve T [GET_movies None (Some 3), GET_movie 12, GET_recommendations (\<lambda>k. 0)]
            catalog7) = db catalog7"
proof
  fix T
  have v: "validate_Review T
      (JObject [(pystr_of ''movie_id'', JInt 4), (pystr_of ''rating'', JFloat (Finite 5)),
                (pystr_of ''comment'', JString (pystr_of ''sand''))]) =
      Some \<lparr>movie_id = 4, rating = Finite 5, comment = pystr_of ''sand''\<rparr>"
    by (simp add: validate_Review_def json_member_def int_field_def float_field_def
        str_field_def pystr_of_def)
  have size: "record_size 4 (Finite 5) (pystr_of ''sand'') \<le> SQLITE_MAX_LENGTH"
    by (simp add: record_size_def utf8_size_def varint_len_def int_size_def real_size_def
        pystr_of_def SQLITE_MAX_LENGTH_def)
  have rid: "new_rowid (\<lambda>k. 1) (map fst ([] :: review_row list)) = Some 1"
    by (simp add: new_rowid_def)
  have c: "reviews (db (snd (create_review (\<lambda>k. 1)
        \<lparr>movie_id = 4, rating = Finite 5, comment = pystr_of ''sand''\<rparr> s))) =
      Some [(1, 4, Some (Finite 5), pystr_of ''sand'')]" if "reviews (db s) = Some []" for s
    using create_review_ok [OF that _ _ _ rid,
        of "\<lparr>movie_id = 4, rating = Finite 5, comment = pystr_of ''sand''\<rparr>"] size
    by (simp add: sqlite_int_def utf8_encodable_pystr_of sql_real_def)
  have "reviews (db (serve T
            [GET_movies None (Some 3),
             POST_reviews (JObject [(pystr_of ''movie_id'', JInt 4),
                 (pystr_of ''rating'', JFloat (Finite 5)),
                 (pystr_of ''comment'', JString (pystr_of ''sand''))]) (\<lambda>k. 1),
             GET_movie 4, GET_recommendations (\<lambda>k. 0)] catalog7)) =
          Some [(1, 4, Some (Finite 5), pystr_of ''sand'')]"
    by (simp add: snd_respond snd_read_movie read_movies_def recommendations_def
        get_movies_eval get_movie_eval get_recommendations_eval post_reviews_def v
        add_review_def c catalog7_reviews)
  then show "movies (db (serve T
            [GET_movies None (Some 3),
             POST_reviews (JObject [(pystr_of ''movie_id'', JInt 4),
                 (pystr_of ''rating'', JFloat (Finite 5)),
                 (pystr_of ''comment'', JString (pystr_of ''sand''))]) (\<lambda>k. 1),
             GET_movie 4, GET_recommendations (\<lambda>k. 0)] catalog7)) = movies (db catalog7)
      \<and> reviews (db (serve T
            [GET_movies None (Some 3),
             POST_reviews (JObject [(pystr_of ''movie_id'', JInt 4),
                 (pystr_of ''rating'', JFloat (Finite 5)),
                 (pystr_of ''comment'', JString (pystr_of ''sand''))]) (\<lambda>k. 1),
             GET_movie 4, GET_recommendations (\<lambda>k. 0)] catalog7)) =
          Some [(1, 4, Some (Finite 5), pystr_of ''sand'')]
      \<and> db (serve T [GET_movies None (Some 3), GET_movie 12, GET_recommendations (\<lambda>k. 0)]
            catalog7) = db catalog7"
    using serve_never_changes_movies [of T
       "[GET_movies None (Some 3),
             POST_reviews (JObject [(pystr_of ''movie_id'', JInt 4),
                 (pystr_of ''rating'', JFloat (Finite 5)),
                 (pystr_of ''comment'', JString (pystr_of ''sand''))]) (\<lambda>k. 1),
             GET_movie 4, GET_recommendations (\<lambda>k. 0)]" catalog7]
      serve_never_changes_movies [of T
       "[GET_movies None (Some 3), GET_movie 12, GET_recommendations (\<lambda>k. 0)]" catalog7]
    by simp
qed

end
